theory Spec2Isabelle
  imports Main "HOL-Library.Sublist"
begin

section \<open>Front matter values and validation issues\<close>

text \<open>
  The front matter of an article file is a YAML block. The collection library decodes it
  to a JavaScript object before the schema of \<^verbatim>\<open>content-collections.ts\<close> sees it;
  the model starts from the decoded values. A key that the block does not have reads as
  \<^verbatim>\<open>undefined\<close>, which is \<open>None\<close> here.
\<close>

datatype yaml =
    YNull
  | YBool bool
  | YInt int
  | YStr string
  | YSeq "yaml list"
  | YMap "(string \<times> yaml) list"

text \<open>
  A validation issue carries the path of the offending value and what went wrong:
  the value was \<^verbatim>\<open>undefined\<close> (\<open>Required\<close>) or had another type (\<open>Invalid_type\<close>).
\<close>

datatype key = Key string | Idx nat

datatype issue_code = Required | Invalid_type

type_synonym issue = "key list \<times> issue_code"

type_synonym 'a parsed = "issue list + 'a"

type_synonym 'a schema = "key list \<Rightarrow> yaml option \<Rightarrow> 'a parsed"

section \<open>The schema combinators used by the collection\<close>

text \<open>\<^verbatim>\<open>z.string()\<close>: accepts a string and nothing else.\<close>

definition z_string :: "string schema" where
  "z_string p v =
     (case v of
        None \<Rightarrow> Inl [(p, Required)]
      | Some (YStr s) \<Rightarrow> Inr s
      | Some _ \<Rightarrow> Inl [(p, Invalid_type)])"

text \<open>\<^verbatim>\<open>z.boolean()\<close>: accepts a literal boolean and nothing else.\<close>

definition z_boolean :: "bool schema" where
  "z_boolean p v =
     (case v of
        None \<Rightarrow> Inl [(p, Required)]
      | Some (YBool b) \<Rightarrow> Inr b
      | Some _ \<Rightarrow> Inl [(p, Invalid_type)])"

text \<open>
  Two results are put together the way an object or array schema does it: the value is
  built only when both succeeded, and the issues of both are reported otherwise.
\<close>

fun ap :: "('a \<Rightarrow> 'b) parsed \<Rightarrow> 'a parsed \<Rightarrow> 'b parsed" where
  "ap (Inr f) (Inr x) = Inr (f x)"
| "ap (Inl e) (Inr x) = Inl e"
| "ap (Inr f) (Inl e) = Inl e"
| "ap (Inl e) (Inl e') = Inl (e @ e')"

fun collect :: "'a parsed list \<Rightarrow> 'a list parsed" where
  "collect [] = Inr []"
| "collect (r # rs) = ap (ap (Inr Cons) r) (collect rs)"

text \<open>\<^verbatim>\<open>z.array(item)\<close>: every element is checked under its index.\<close>

definition z_array :: "'a schema \<Rightarrow> 'a list schema" where
  "z_array item p v =
     (case v of
        None \<Rightarrow> Inl [(p, Required)]
      | Some (YSeq xs) \<Rightarrow>
          collect (map (\<lambda>(i, x). item (p @ [Idx i]) (Some x)) (enumerate 0 xs))
      | Some _ \<Rightarrow> Inl [(p, Invalid_type)])"

text \<open>\<^verbatim>\<open>.optional()\<close>: \<^verbatim>\<open>undefined\<close> passes through as \<^verbatim>\<open>undefined\<close>.\<close>

definition z_optional :: "'a schema \<Rightarrow> 'a option schema" where
  "z_optional inner p v =
     (case v of
        None \<Rightarrow> Inr None
      | Some _ \<Rightarrow> map_sum id Some (inner p v))"

text \<open>
  \<^verbatim>\<open>.default(d)\<close>: \<^verbatim>\<open>undefined\<close> is replaced by the default; any other input goes
  to the inner schema. The result is never \<^verbatim>\<open>undefined\<close>.
\<close>

definition z_default :: "'a option schema \<Rightarrow> 'a \<Rightarrow> 'a schema" where
  "z_default inner d p v =
     (case v of
        None \<Rightarrow> Inr d
      | Some _ \<Rightarrow> map_sum id (\<lambda>r. case r of None \<Rightarrow> d | Some x \<Rightarrow> x) (inner p v))"

text \<open>A result reports an issue when it is a failure that lists the issue.\<close>

definition reports :: "issue \<Rightarrow> 'a parsed \<Rightarrow> bool" where
  "reports i r = (case r of Inl es \<Rightarrow> i \<in> set es | Inr x \<Rightarrow> False)"

text \<open>One key of an object schema: the value stored under the key, checked at that path.\<close>

definition field :: "string \<Rightarrow> 'a schema \<Rightarrow> (string \<rightharpoonup> yaml) \<Rightarrow> 'a parsed" where
  "field k s d = s [Key k] (d k)"

section \<open>The data model\<close>

text \<open>The eight keys of the schema, with the types the schema gives them.\<close>

record frontmatter =
  title :: string
  description :: string
  date :: string
  author :: string
  category :: string
  tags :: "string list option"
  image :: "string option"
  featured :: bool

text \<open>What the library knows about the file; \<open>path\<close> is the file's path below the
  collection directory, without the extension.\<close>

record meta =
  filePath :: string
  fileName :: string
  directory :: string
  extension :: string
  path :: string

text \<open>The document handed to \<^verbatim>\<open>transform\<close>: the validated keys, the body text and
  \<^verbatim>\<open>_meta\<close>.\<close>

record document = frontmatter +
  content :: string
  meta :: meta

text \<open>What \<^verbatim>\<open>transform\<close> returns, one entry of \<^verbatim>\<open>allPosts\<close>.\<close>

record 'm post = document +
  mdx :: 'm
  slug :: string
  url :: string

text \<open>An article file after its front matter has been decoded.\<close>

record article_source =
  data :: "string \<rightharpoonup> yaml"
  body :: string
  source_meta :: meta

datatype error = ValidationError "issue list" | CompilationError

section \<open>The collection \<^verbatim>\<open>posts\<close> of \<^verbatim>\<open>content-collections.ts\<close>\<close>

definition posts_schema :: "(string \<rightharpoonup> yaml) \<Rightarrow> frontmatter parsed" where
  "posts_schema d =
     ap (ap (ap (ap (ap (ap (ap (ap
       (Inr (\<lambda>t ds dt a c tg im f.
          \<lparr>title = t, description = ds, date = dt, author = a, category = c,
           tags = tg, image = im, featured = f\<rparr>))
       (field ''title'' z_string d))
       (field ''description'' z_string d))
       (field ''date'' z_string d))
       (field ''author'' z_string d))
       (field ''category'' z_string d))
       (field ''tags'' (z_optional (z_array z_string)) d))
       (field ''image'' (z_optional z_string) d))
       (field ''featured'' (z_default (z_optional z_boolean) False) d)"

text \<open>
  \<^verbatim>\<open>transform\<close>: the body is compiled by \<^verbatim>\<open>compileMDX\<close>, which belongs to another
  package and is a parameter here (\<open>None\<close> when it throws); the result is the document
  with \<^verbatim>\<open>mdx\<close>, \<^verbatim>\<open>slug\<close> and \<^verbatim>\<open>url\<close> added.
\<close>

definition posts_transform :: "(document \<Rightarrow> 'm option) \<Rightarrow> document \<Rightarrow> error + 'm post" where
  "posts_transform compileMDX document =
     (case compileMDX document of
        None \<Rightarrow> Inl CompilationError
      | Some m \<Rightarrow>
          Inr (document.extend document
                 (post.fields m (path (meta document)) (''/blog/'' @ path (meta document)))))"

section \<open>The compiled configuration\<close>

text \<open>The same collection as the bundler emitted it (the generated copy of the
  configuration), translated on its own.\<close>

definition compiled_posts_schema :: "(string \<rightharpoonup> yaml) \<Rightarrow> frontmatter parsed" where
  "compiled_posts_schema d =
     ap (ap (ap (ap (ap (ap (ap (ap
       (Inr (\<lambda>t ds dt a c tg im f.
          \<lparr>title = t, description = ds, date = dt, author = a, category = c,
           tags = tg, image = im, featured = f\<rparr>))
       (field ''title'' z_string d))
       (field ''description'' z_string d))
       (field ''date'' z_string d))
       (field ''author'' z_string d))
       (field ''category'' z_string d))
       (field ''tags'' (z_optional (z_array z_string)) d))
       (field ''image'' (z_optional z_string) d))
       (field ''featured'' (z_default (z_optional z_boolean) False) d)"

definition compiled_posts_transform ::
    "(document \<Rightarrow> 'm option) \<Rightarrow> document \<Rightarrow> error + 'm post" where
  "compiled_posts_transform compileMDX document =
     (case compileMDX document of
        None \<Rightarrow> Inl CompilationError
      | Some m \<Rightarrow>
          Inr (document.extend document
                 (post.fields m (path (meta document)) (''/blog/'' @ path (meta document)))))"

section \<open>The per-file driver and the published collection\<close>

text \<open>
  Modelled from the spec: the driver that runs the schema and the transform on each file
  and gathers the results belongs to the collection library and is not among the
  repository's sources. \<open>parse\<close> follows the operation of that name: validate the front matter against the
  schema, attach body and file information, run the transform, and return either the
  record or an error naming the failing fields.
\<close>

definition parse :: "(document \<Rightarrow> 'm option) \<Rightarrow> article_source \<Rightarrow> error + 'm post" where
  "parse compileMDX src =
     (case posts_schema (data src) of
        Inl is \<Rightarrow> Inl (ValidationError is)
      | Inr fm \<Rightarrow>
          posts_transform compileMDX
            (frontmatter.extend fm (document.fields (body src) (source_meta src))))"

text \<open>
  Modelled from the spec: the library's aggregation step is missing from the sources.
  \<open>published\<close> holds the successfully parsed records in discovery order, every file
  that failed being skipped.
\<close>

definition published :: "(document \<Rightarrow> 'm option) \<Rightarrow> article_source list \<Rightarrow> 'm post list" where
  "published compileMDX sources =
     concat (map (\<lambda>src. case parse compileMDX src of Inl e \<Rightarrow> [] | Inr r \<Rightarrow> [r]) sources)"

text \<open>
  Modelled from the spec: the library's error report is missing from the sources.
  \<open>diagnostics\<close> is the list of (source path, error) pairs of the files that failed.
\<close>

definition diagnostics ::
    "(document \<Rightarrow> 'm option) \<Rightarrow> article_source list \<Rightarrow> (string \<times> error) list" where
  "diagnostics compileMDX sources =
     concat (map (\<lambda>src. case parse compileMDX src of
                          Inl e \<Rightarrow> [(filePath (source_meta src), e)]
                        | Inr (r :: 'm post) \<Rightarrow> []) sources)"

text \<open>
  Modelled from the spec: \<open>publish\<close>, the library's run over all files, yields the
  collection with the diagnostics beside it.
\<close>

definition publish ::
    "(document \<Rightarrow> 'm option) \<Rightarrow> article_source list \<Rightarrow> 'm post list \<times> (string \<times> error) list" where
  "publish compileMDX sources = (published compileMDX sources, diagnostics compileMDX sources)"

text \<open>The keys that the schema declares without \<^verbatim>\<open>.optional()\<close>.\<close>

definition required_fields :: "string list" where
  "required_fields = [''title'', ''description'', ''date'', ''author'', ''category'']"

section \<open>JavaScript strings and \<^verbatim>\<open>toLowerCase\<close>\<close>

text \<open>
  A text is held as \<open>string\<close>, the bytes of its UTF-8 form (what the article files
  contain). Equality and \<^verbatim>\<open>includes\<close> on well-formed text do not depend on the
  encoding. \<^verbatim>\<open>toLowerCase\<close> works on code points, so the bytes are decoded first;
  a byte that does not start a well-formed sequence is kept as it is.
\<close>

datatype scalar = Scalar int | Stray char

definition cont :: "char \<Rightarrow> bool" where
  "cont b = (0x80 \<le> (of_char b :: int) \<and> (of_char b :: int) < 0xC0)"

definition tail6 :: "char \<Rightarrow> int" where
  "tail6 b = of_char b - 0x80"

text \<open>The code point at the head of a byte string and the number of bytes it takes.\<close>

definition utf8_head :: "string \<Rightarrow> (int \<times> nat) option" where
  "utf8_head s =
     (case s of
        [] \<Rightarrow> None
      | b0 # r \<Rightarrow>
          (let n0 = (of_char b0 :: int) in
           if n0 < 0x80 then Some (n0, 1)
           else if 0xC2 \<le> n0 \<and> n0 \<le> 0xDF then
             (case r of
                b1 # _ \<Rightarrow>
                  if cont b1 then Some ((n0 - 0xC0) * 0x40 + tail6 b1, 2) else None
              | _ \<Rightarrow> None)
           else if 0xE0 \<le> n0 \<and> n0 \<le> 0xEF then
             (case r of
                b1 # b2 # _ \<Rightarrow>
                  (let cp = (n0 - 0xE0) * 0x1000 + tail6 b1 * 0x40 + tail6 b2 in
                   if cont b1 \<and> cont b2 \<and> 0x800 \<le> cp \<and> \<not> (0xD800 \<le> cp \<and> cp \<le> 0xDFFF)
                   then Some (cp, 3) else None)
              | _ \<Rightarrow> None)
           else if 0xF0 \<le> n0 \<and> n0 \<le> 0xF4 then
             (case r of
                b1 # b2 # b3 # _ \<Rightarrow>
                  (let cp = (n0 - 0xF0) * 0x40000 + tail6 b1 * 0x1000 + tail6 b2 * 0x40 + tail6 b3 in
                   if cont b1 \<and> cont b2 \<and> cont b3 \<and> 0x10000 \<le> cp \<and> cp \<le> 0x10FFFF
                   then Some (cp, 4) else None)
              | _ \<Rightarrow> None)
           else None))"

fun decode :: "string \<Rightarrow> scalar list" where
  "decode [] = []"
| "decode (b # bs) =
     (case utf8_head (b # bs) of
        Some (cp, n) \<Rightarrow> Scalar cp # decode (drop (n - 1) bs)
      | None \<Rightarrow> Stray b # decode bs)"

fun encode :: "scalar \<Rightarrow> string" where
  "encode (Stray b) = [b]"
| "encode (Scalar cp) =
     (if cp < 0x80 then [char_of cp]
      else if cp < 0x800 then [char_of (0xC0 + cp div 0x40), char_of (0x80 + cp mod 0x40)]
      else if cp < 0x10000 then
        [char_of (0xE0 + cp div 0x1000), char_of (0x80 + cp div 0x40 mod 0x40),
         char_of (0x80 + cp mod 0x40)]
      else
        [char_of (0xF0 + cp div 0x40000), char_of (0x80 + cp div 0x1000 mod 0x40),
         char_of (0x80 + cp div 0x40 mod 0x40), char_of (0x80 + cp mod 0x40)])"

text \<open>
  The lower-case mappings of the Unicode Character Database (version 14.0), one row per
  run of code points: first and last code point of the run, the step between its
  members, and the lower case of the first; the lower case of a later member lies as
  far from that as the member lies from the first. \<open>U+03A3\<close> and \<open>U+0130\<close> are
  not in the table: the algorithm treats them on their own.
\<close>

definition lower_rows :: "(int \<times> int \<times> int \<times> int) list" where
  "lower_rows =
     [
      (0x41, 0x5A, 1, 0x61), (0xC0, 0xD6, 1, 0xE0), (0xD8, 0xDE, 1, 0xF8), (0x100, 0x12E, 2, 0x101),
      (0x132, 0x136, 2, 0x133), (0x139, 0x147, 2, 0x13A), (0x14A, 0x176, 2, 0x14B), (0x178, 0x178, 1, 0xFF),
      (0x179, 0x17D, 2, 0x17A), (0x181, 0x181, 1, 0x253), (0x182, 0x184, 2, 0x183), (0x186, 0x186, 1, 0x254),
      (0x187, 0x187, 1, 0x188), (0x189, 0x18A, 1, 0x256), (0x18B, 0x18B, 1, 0x18C), (0x18E, 0x18E, 1, 0x1DD),
      (0x18F, 0x18F, 1, 0x259), (0x190, 0x190, 1, 0x25B), (0x191, 0x191, 1, 0x192), (0x193, 0x193, 1, 0x260),
      (0x194, 0x194, 1, 0x263), (0x196, 0x196, 1, 0x269), (0x197, 0x197, 1, 0x268), (0x198, 0x198, 1, 0x199),
      (0x19C, 0x19C, 1, 0x26F), (0x19D, 0x19D, 1, 0x272), (0x19F, 0x19F, 1, 0x275), (0x1A0, 0x1A4, 2, 0x1A1),
      (0x1A6, 0x1A6, 1, 0x280), (0x1A7, 0x1A7, 1, 0x1A8), (0x1A9, 0x1A9, 1, 0x283), (0x1AC, 0x1AC, 1, 0x1AD),
      (0x1AE, 0x1AE, 1, 0x288), (0x1AF, 0x1AF, 1, 0x1B0), (0x1B1, 0x1B2, 1, 0x28A), (0x1B3, 0x1B5, 2, 0x1B4),
      (0x1B7, 0x1B7, 1, 0x292), (0x1B8, 0x1B8, 1, 0x1B9), (0x1BC, 0x1BC, 1, 0x1BD), (0x1C4, 0x1C4, 1, 0x1C6),
      (0x1C5, 0x1C5, 1, 0x1C6), (0x1C7, 0x1C7, 1, 0x1C9), (0x1C8, 0x1C8, 1, 0x1C9), (0x1CA, 0x1CA, 1, 0x1CC),
      (0x1CB, 0x1DB, 2, 0x1CC), (0x1DE, 0x1EE, 2, 0x1DF), (0x1F1, 0x1F1, 1, 0x1F3), (0x1F2, 0x1F4, 2, 0x1F3),
      (0x1F6, 0x1F6, 1, 0x195), (0x1F7, 0x1F7, 1, 0x1BF), (0x1F8, 0x21E, 2, 0x1F9), (0x220, 0x220, 1, 0x19E),
      (0x222, 0x232, 2, 0x223), (0x23A, 0x23A, 1, 0x2C65), (0x23B, 0x23B, 1, 0x23C), (0x23D, 0x23D, 1, 0x19A),
      (0x23E, 0x23E, 1, 0x2C66), (0x241, 0x241, 1, 0x242), (0x243, 0x243, 1, 0x180), (0x244, 0x244, 1, 0x289),
      (0x245, 0x245, 1, 0x28C), (0x246, 0x24E, 2, 0x247), (0x370, 0x372, 2, 0x371), (0x376, 0x376, 1, 0x377),
      (0x37F, 0x37F, 1, 0x3F3), (0x386, 0x386, 1, 0x3AC), (0x388, 0x38A, 1, 0x3AD), (0x38C, 0x38C, 1, 0x3CC),
      (0x38E, 0x38F, 1, 0x3CD), (0x391, 0x3A1, 1, 0x3B1), (0x3A4, 0x3AB, 1, 0x3C4), (0x3CF, 0x3CF, 1, 0x3D7),
      (0x3D8, 0x3EE, 2, 0x3D9), (0x3F4, 0x3F4, 1, 0x3B8), (0x3F7, 0x3F7, 1, 0x3F8), (0x3F9, 0x3F9, 1, 0x3F2),
      (0x3FA, 0x3FA, 1, 0x3FB), (0x3FD, 0x3FF, 1, 0x37B), (0x400, 0x40F, 1, 0x450), (0x410, 0x42F, 1, 0x430),
      (0x460, 0x480, 2, 0x461), (0x48A, 0x4BE, 2, 0x48B), (0x4C0, 0x4C0, 1, 0x4CF), (0x4C1, 0x4CD, 2, 0x4C2),
      (0x4D0, 0x52E, 2, 0x4D1), (0x531, 0x556, 1, 0x561), (0x10A0, 0x10C5, 1, 0x2D00), (0x10C7, 0x10C7, 1, 0x2D27),
      (0x10CD, 0x10CD, 1, 0x2D2D), (0x13A0, 0x13EF, 1, 0xAB70), (0x13F0, 0x13F5, 1, 0x13F8), (0x1C90, 0x1CBA, 1, 0x10D0),
      (0x1CBD, 0x1CBF, 1, 0x10FD), (0x1E00, 0x1E94, 2, 0x1E01), (0x1E9E, 0x1E9E, 1, 0xDF), (0x1EA0, 0x1EFE, 2, 0x1EA1),
      (0x1F08, 0x1F0F, 1, 0x1F00), (0x1F18, 0x1F1D, 1, 0x1F10), (0x1F28, 0x1F2F, 1, 0x1F20), (0x1F38, 0x1F3F, 1, 0x1F30),
      (0x1F48, 0x1F4D, 1, 0x1F40), (0x1F59, 0x1F5F, 2, 0x1F51), (0x1F68, 0x1F6F, 1, 0x1F60), (0x1F88, 0x1F8F, 1, 0x1F80),
      (0x1F98, 0x1F9F, 1, 0x1F90), (0x1FA8, 0x1FAF, 1, 0x1FA0), (0x1FB8, 0x1FB9, 1, 0x1FB0), (0x1FBA, 0x1FBB, 1, 0x1F70),
      (0x1FBC, 0x1FBC, 1, 0x1FB3), (0x1FC8, 0x1FCB, 1, 0x1F72), (0x1FCC, 0x1FCC, 1, 0x1FC3), (0x1FD8, 0x1FD9, 1, 0x1FD0),
      (0x1FDA, 0x1FDB, 1, 0x1F76), (0x1FE8, 0x1FE9, 1, 0x1FE0), (0x1FEA, 0x1FEB, 1, 0x1F7A), (0x1FEC, 0x1FEC, 1, 0x1FE5),
      (0x1FF8, 0x1FF9, 1, 0x1F78), (0x1FFA, 0x1FFB, 1, 0x1F7C), (0x1FFC, 0x1FFC, 1, 0x1FF3), (0x2126, 0x2126, 1, 0x3C9),
      (0x212A, 0x212A, 1, 0x6B), (0x212B, 0x212B, 1, 0xE5), (0x2132, 0x2132, 1, 0x214E), (0x2160, 0x216F, 1, 0x2170),
      (0x2183, 0x2183, 1, 0x2184), (0x24B6, 0x24CF, 1, 0x24D0), (0x2C00, 0x2C2F, 1, 0x2C30), (0x2C60, 0x2C60, 1, 0x2C61),
      (0x2C62, 0x2C62, 1, 0x26B), (0x2C63, 0x2C63, 1, 0x1D7D), (0x2C64, 0x2C64, 1, 0x27D), (0x2C67, 0x2C6B, 2, 0x2C68),
      (0x2C6D, 0x2C6D, 1, 0x251), (0x2C6E, 0x2C6E, 1, 0x271), (0x2C6F, 0x2C6F, 1, 0x250), (0x2C70, 0x2C70, 1, 0x252),
      (0x2C72, 0x2C72, 1, 0x2C73), (0x2C75, 0x2C75, 1, 0x2C76), (0x2C7E, 0x2C7F, 1, 0x23F), (0x2C80, 0x2CE2, 2, 0x2C81),
      (0x2CEB, 0x2CED, 2, 0x2CEC), (0x2CF2, 0x2CF2, 1, 0x2CF3), (0xA640, 0xA66C, 2, 0xA641), (0xA680, 0xA69A, 2, 0xA681),
      (0xA722, 0xA72E, 2, 0xA723), (0xA732, 0xA76E, 2, 0xA733), (0xA779, 0xA77B, 2, 0xA77A), (0xA77D, 0xA77D, 1, 0x1D79),
      (0xA77E, 0xA786, 2, 0xA77F), (0xA78B, 0xA78B, 1, 0xA78C), (0xA78D, 0xA78D, 1, 0x265), (0xA790, 0xA792, 2, 0xA791),
      (0xA796, 0xA7A8, 2, 0xA797), (0xA7AA, 0xA7AA, 1, 0x266), (0xA7AB, 0xA7AB, 1, 0x25C), (0xA7AC, 0xA7AC, 1, 0x261),
      (0xA7AD, 0xA7AD, 1, 0x26C), (0xA7AE, 0xA7AE, 1, 0x26A), (0xA7B0, 0xA7B0, 1, 0x29E), (0xA7B1, 0xA7B1, 1, 0x287),
      (0xA7B2, 0xA7B2, 1, 0x29D), (0xA7B3, 0xA7B3, 1, 0xAB53), (0xA7B4, 0xA7C2, 2, 0xA7B5), (0xA7C4, 0xA7C4, 1, 0xA794),
      (0xA7C5, 0xA7C5, 1, 0x282), (0xA7C6, 0xA7C6, 1, 0x1D8E), (0xA7C7, 0xA7C9, 2, 0xA7C8), (0xA7D0, 0xA7D0, 1, 0xA7D1),
      (0xA7D6, 0xA7D8, 2, 0xA7D7), (0xA7F5, 0xA7F5, 1, 0xA7F6), (0xFF21, 0xFF3A, 1, 0xFF41), (0x10400, 0x10427, 1, 0x10428),
      (0x104B0, 0x104D3, 1, 0x104D8), (0x10570, 0x1057A, 1, 0x10597), (0x1057C, 0x1058A, 1, 0x105A3), (0x1058C, 0x10592, 1, 0x105B3),
      (0x10594, 0x10595, 1, 0x105BB), (0x10C80, 0x10CB2, 1, 0x10CC0), (0x118A0, 0x118BF, 1, 0x118C0), (0x16E40, 0x16E5F, 1, 0x16E60),
      (0x1E900, 0x1E921, 1, 0x1E922)]"

definition simple_lower :: "int \<Rightarrow> int" where
  "simple_lower cp =
     (case find (\<lambda>(lo, hi, st, low). lo \<le> cp \<and> cp \<le> hi \<and> (cp - lo) mod st = 0) lower_rows of
        Some (lo, hi, st, low) \<Rightarrow> low + (cp - lo)
      | None \<Rightarrow> cp)"

text \<open>The code points with the property \<open>Case_Ignorable\<close>, as ranges.\<close>

definition case_ignorable_rows :: "(int \<times> int) list" where
  "case_ignorable_rows =
     [
      (0x27, 0x27), (0x2E, 0x2E), (0x3A, 0x3A), (0x5E, 0x5E), (0x60, 0x60), (0xA8, 0xA8),
      (0xAD, 0xAD), (0xAF, 0xAF), (0xB4, 0xB4), (0xB7, 0xB8), (0x2B0, 0x36F), (0x374, 0x375),
      (0x37A, 0x37A), (0x384, 0x385), (0x387, 0x387), (0x483, 0x489), (0x559, 0x559), (0x55F, 0x55F),
      (0x591, 0x5BD), (0x5BF, 0x5BF), (0x5C1, 0x5C2), (0x5C4, 0x5C5), (0x5C7, 0x5C7), (0x5F4, 0x5F4),
      (0x600, 0x605), (0x610, 0x61A), (0x61C, 0x61C), (0x640, 0x640), (0x64B, 0x65F), (0x670, 0x670),
      (0x6D6, 0x6DD), (0x6DF, 0x6E8), (0x6EA, 0x6ED), (0x70F, 0x70F), (0x711, 0x711), (0x730, 0x74A),
      (0x7A6, 0x7B0), (0x7EB, 0x7F5), (0x7FA, 0x7FA), (0x7FD, 0x7FD), (0x816, 0x82D), (0x859, 0x85B),
      (0x888, 0x888), (0x890, 0x891), (0x898, 0x89F), (0x8C9, 0x902), (0x93A, 0x93A), (0x93C, 0x93C),
      (0x941, 0x948), (0x94D, 0x94D), (0x951, 0x957), (0x962, 0x963), (0x971, 0x971), (0x981, 0x981),
      (0x9BC, 0x9BC), (0x9C1, 0x9C4), (0x9CD, 0x9CD), (0x9E2, 0x9E3), (0x9FE, 0x9FE), (0xA01, 0xA02),
      (0xA3C, 0xA3C), (0xA41, 0xA42), (0xA47, 0xA48), (0xA4B, 0xA4D), (0xA51, 0xA51), (0xA70, 0xA71),
      (0xA75, 0xA75), (0xA81, 0xA82), (0xABC, 0xABC), (0xAC1, 0xAC5), (0xAC7, 0xAC8), (0xACD, 0xACD),
      (0xAE2, 0xAE3), (0xAFA, 0xAFF), (0xB01, 0xB01), (0xB3C, 0xB3C), (0xB3F, 0xB3F), (0xB41, 0xB44),
      (0xB4D, 0xB4D), (0xB55, 0xB56), (0xB62, 0xB63), (0xB82, 0xB82), (0xBC0, 0xBC0), (0xBCD, 0xBCD),
      (0xC00, 0xC00), (0xC04, 0xC04), (0xC3C, 0xC3C), (0xC3E, 0xC40), (0xC46, 0xC48), (0xC4A, 0xC4D),
      (0xC55, 0xC56), (0xC62, 0xC63), (0xC81, 0xC81), (0xCBC, 0xCBC), (0xCBF, 0xCBF), (0xCC6, 0xCC6),
      (0xCCC, 0xCCD), (0xCE2, 0xCE3), (0xD00, 0xD01), (0xD3B, 0xD3C), (0xD41, 0xD44), (0xD4D, 0xD4D),
      (0xD62, 0xD63), (0xD81, 0xD81), (0xDCA, 0xDCA), (0xDD2, 0xDD4), (0xDD6, 0xDD6), (0xE31, 0xE31),
      (0xE34, 0xE3A), (0xE46, 0xE4E), (0xEB1, 0xEB1), (0xEB4, 0xEBC), (0xEC6, 0xEC6), (0xEC8, 0xECD),
      (0xF18, 0xF19), (0xF35, 0xF35), (0xF37, 0xF37), (0xF39, 0xF39), (0xF71, 0xF7E), (0xF80, 0xF84),
      (0xF86, 0xF87), (0xF8D, 0xF97), (0xF99, 0xFBC), (0xFC6, 0xFC6), (0x102D, 0x1030), (0x1032, 0x1037),
      (0x1039, 0x103A), (0x103D, 0x103E), (0x1058, 0x1059), (0x105E, 0x1060), (0x1071, 0x1074), (0x1082, 0x1082),
      (0x1085, 0x1086), (0x108D, 0x108D), (0x109D, 0x109D), (0x10FC, 0x10FC), (0x135D, 0x135F), (0x1712, 0x1714),
      (0x1732, 0x1733), (0x1752, 0x1753), (0x1772, 0x1773), (0x17B4, 0x17B5), (0x17B7, 0x17BD), (0x17C6, 0x17C6),
      (0x17C9, 0x17D3), (0x17D7, 0x17D7), (0x17DD, 0x17DD), (0x180B, 0x180F), (0x1843, 0x1843), (0x1885, 0x1886),
      (0x18A9, 0x18A9), (0x1920, 0x1922), (0x1927, 0x1928), (0x1932, 0x1932), (0x1939, 0x193B), (0x1A17, 0x1A18),
      (0x1A1B, 0x1A1B), (0x1A56, 0x1A56), (0x1A58, 0x1A5E), (0x1A60, 0x1A60), (0x1A62, 0x1A62), (0x1A65, 0x1A6C),
      (0x1A73, 0x1A7C), (0x1A7F, 0x1A7F), (0x1AA7, 0x1AA7), (0x1AB0, 0x1ACE), (0x1B00, 0x1B03), (0x1B34, 0x1B34),
      (0x1B36, 0x1B3A), (0x1B3C, 0x1B3C), (0x1B42, 0x1B42), (0x1B6B, 0x1B73), (0x1B80, 0x1B81), (0x1BA2, 0x1BA5),
      (0x1BA8, 0x1BA9), (0x1BAB, 0x1BAD), (0x1BE6, 0x1BE6), (0x1BE8, 0x1BE9), (0x1BED, 0x1BED), (0x1BEF, 0x1BF1),
      (0x1C2C, 0x1C33), (0x1C36, 0x1C37), (0x1C78, 0x1C7D), (0x1CD0, 0x1CD2), (0x1CD4, 0x1CE0), (0x1CE2, 0x1CE8),
      (0x1CED, 0x1CED), (0x1CF4, 0x1CF4), (0x1CF8, 0x1CF9), (0x1D2C, 0x1D6A), (0x1D78, 0x1D78), (0x1D9B, 0x1DFF),
      (0x1FBD, 0x1FBD), (0x1FBF, 0x1FC1), (0x1FCD, 0x1FCF), (0x1FDD, 0x1FDF), (0x1FED, 0x1FEF), (0x1FFD, 0x1FFE),
      (0x200B, 0x200F), (0x2018, 0x2019), (0x2024, 0x2024), (0x2027, 0x2027), (0x202A, 0x202E), (0x2060, 0x2064),
      (0x2066, 0x206F), (0x2071, 0x2071), (0x207F, 0x207F), (0x2090, 0x209C), (0x20D0, 0x20F0), (0x2C7C, 0x2C7D),
      (0x2CEF, 0x2CF1), (0x2D6F, 0x2D6F), (0x2D7F, 0x2D7F), (0x2DE0, 0x2DFF), (0x2E2F, 0x2E2F), (0x3005, 0x3005),
      (0x302A, 0x302D), (0x3031, 0x3035), (0x303B, 0x303B), (0x3099, 0x309E), (0x30FC, 0x30FE), (0xA015, 0xA015),
      (0xA4F8, 0xA4FD), (0xA60C, 0xA60C), (0xA66F, 0xA672), (0xA674, 0xA67D), (0xA67F, 0xA67F), (0xA69C, 0xA69F),
      (0xA6F0, 0xA6F1), (0xA700, 0xA721), (0xA770, 0xA770), (0xA788, 0xA78A), (0xA7F2, 0xA7F4), (0xA7F8, 0xA7F9),
      (0xA802, 0xA802), (0xA806, 0xA806), (0xA80B, 0xA80B), (0xA825, 0xA826), (0xA82C, 0xA82C), (0xA8C4, 0xA8C5),
      (0xA8E0, 0xA8F1), (0xA8FF, 0xA8FF), (0xA926, 0xA92D), (0xA947, 0xA951), (0xA980, 0xA982), (0xA9B3, 0xA9B3),
      (0xA9B6, 0xA9B9), (0xA9BC, 0xA9BD), (0xA9CF, 0xA9CF), (0xA9E5, 0xA9E6), (0xAA29, 0xAA2E), (0xAA31, 0xAA32),
      (0xAA35, 0xAA36), (0xAA43, 0xAA43), (0xAA4C, 0xAA4C), (0xAA70, 0xAA70), (0xAA7C, 0xAA7C), (0xAAB0, 0xAAB0),
      (0xAAB2, 0xAAB4), (0xAAB7, 0xAAB8), (0xAABE, 0xAABF), (0xAAC1, 0xAAC1), (0xAADD, 0xAADD), (0xAAEC, 0xAAED),
      (0xAAF3, 0xAAF4), (0xAAF6, 0xAAF6), (0xAB5B, 0xAB5F), (0xAB69, 0xAB6B), (0xABE5, 0xABE5), (0xABE8, 0xABE8),
      (0xABED, 0xABED), (0xFB1E, 0xFB1E), (0xFBB2, 0xFBC2), (0xFE00, 0xFE0F), (0xFE13, 0xFE13), (0xFE20, 0xFE2F),
      (0xFE52, 0xFE52), (0xFE55, 0xFE55), (0xFEFF, 0xFEFF), (0xFF07, 0xFF07), (0xFF0E, 0xFF0E), (0xFF1A, 0xFF1A),
      (0xFF3E, 0xFF3E), (0xFF40, 0xFF40), (0xFF70, 0xFF70), (0xFF9E, 0xFF9F), (0xFFE3, 0xFFE3), (0xFFF9, 0xFFFB),
      (0x101FD, 0x101FD), (0x102E0, 0x102E0), (0x10376, 0x1037A), (0x10780, 0x10785), (0x10787, 0x107B0), (0x107B2, 0x107BA),
      (0x10A01, 0x10A03), (0x10A05, 0x10A06), (0x10A0C, 0x10A0F), (0x10A38, 0x10A3A), (0x10A3F, 0x10A3F), (0x10AE5, 0x10AE6),
      (0x10D24, 0x10D27), (0x10EAB, 0x10EAC), (0x10F46, 0x10F50), (0x10F82, 0x10F85), (0x11001, 0x11001), (0x11038, 0x11046),
      (0x11070, 0x11070), (0x11073, 0x11074), (0x1107F, 0x11081), (0x110B3, 0x110B6), (0x110B9, 0x110BA), (0x110BD, 0x110BD),
      (0x110C2, 0x110C2), (0x110CD, 0x110CD), (0x11100, 0x11102), (0x11127, 0x1112B), (0x1112D, 0x11134), (0x11173, 0x11173),
      (0x11180, 0x11181), (0x111B6, 0x111BE), (0x111C9, 0x111CC), (0x111CF, 0x111CF), (0x1122F, 0x11231), (0x11234, 0x11234),
      (0x11236, 0x11237), (0x1123E, 0x1123E), (0x112DF, 0x112DF), (0x112E3, 0x112EA), (0x11300, 0x11301), (0x1133B, 0x1133C),
      (0x11340, 0x11340), (0x11366, 0x1136C), (0x11370, 0x11374), (0x11438, 0x1143F), (0x11442, 0x11444), (0x11446, 0x11446),
      (0x1145E, 0x1145E), (0x114B3, 0x114B8), (0x114BA, 0x114BA), (0x114BF, 0x114C0), (0x114C2, 0x114C3), (0x115B2, 0x115B5),
      (0x115BC, 0x115BD), (0x115BF, 0x115C0), (0x115DC, 0x115DD), (0x11633, 0x1163A), (0x1163D, 0x1163D), (0x1163F, 0x11640),
      (0x116AB, 0x116AB), (0x116AD, 0x116AD), (0x116B0, 0x116B5), (0x116B7, 0x116B7), (0x1171D, 0x1171F), (0x11722, 0x11725),
      (0x11727, 0x1172B), (0x1182F, 0x11837), (0x11839, 0x1183A), (0x1193B, 0x1193C), (0x1193E, 0x1193E), (0x11943, 0x11943),
      (0x119D4, 0x119D7), (0x119DA, 0x119DB), (0x119E0, 0x119E0), (0x11A01, 0x11A0A), (0x11A33, 0x11A38), (0x11A3B, 0x11A3E),
      (0x11A47, 0x11A47), (0x11A51, 0x11A56), (0x11A59, 0x11A5B), (0x11A8A, 0x11A96), (0x11A98, 0x11A99), (0x11C30, 0x11C36),
      (0x11C38, 0x11C3D), (0x11C3F, 0x11C3F), (0x11C92, 0x11CA7), (0x11CAA, 0x11CB0), (0x11CB2, 0x11CB3), (0x11CB5, 0x11CB6),
      (0x11D31, 0x11D36), (0x11D3A, 0x11D3A), (0x11D3C, 0x11D3D), (0x11D3F, 0x11D45), (0x11D47, 0x11D47), (0x11D90, 0x11D91),
      (0x11D95, 0x11D95), (0x11D97, 0x11D97), (0x11EF3, 0x11EF4), (0x13430, 0x13438), (0x16AF0, 0x16AF4), (0x16B30, 0x16B36),
      (0x16B40, 0x16B43), (0x16F4F, 0x16F4F), (0x16F8F, 0x16F9F), (0x16FE0, 0x16FE1), (0x16FE3, 0x16FE4), (0x1AFF0, 0x1AFF3),
      (0x1AFF5, 0x1AFFB), (0x1AFFD, 0x1AFFE), (0x1BC9D, 0x1BC9E), (0x1BCA0, 0x1BCA3), (0x1CF00, 0x1CF2D), (0x1CF30, 0x1CF46),
      (0x1D167, 0x1D169), (0x1D173, 0x1D182), (0x1D185, 0x1D18B), (0x1D1AA, 0x1D1AD), (0x1D242, 0x1D244), (0x1DA00, 0x1DA36),
      (0x1DA3B, 0x1DA6C), (0x1DA75, 0x1DA75), (0x1DA84, 0x1DA84), (0x1DA9B, 0x1DA9F), (0x1DAA1, 0x1DAAF), (0x1E000, 0x1E006),
      (0x1E008, 0x1E018), (0x1E01B, 0x1E021), (0x1E023, 0x1E024), (0x1E026, 0x1E02A), (0x1E130, 0x1E13D), (0x1E2AE, 0x1E2AE),
      (0x1E2EC, 0x1E2EF), (0x1E8D0, 0x1E8D6), (0x1E944, 0x1E94B), (0x1F3FB, 0x1F3FF), (0xE0001, 0xE0001), (0xE0020, 0xE007F),
      (0xE0100, 0xE01EF)]"

text \<open>
  The code points with the property \<open>Cased\<close>, as ranges. A cased code point that is
  also case-ignorable is left out: the algorithm tests \<open>Cased\<close> only on code points
  that are not case-ignorable.
\<close>

definition cased_rows :: "(int \<times> int) list" where
  "cased_rows =
     [
      (0x41, 0x5A), (0x61, 0x7A), (0xAA, 0xAA), (0xB5, 0xB5), (0xBA, 0xBA), (0xC0, 0xD6),
      (0xD8, 0xF6), (0xF8, 0x1BA), (0x1BC, 0x1BF), (0x1C4, 0x293), (0x295, 0x2AF), (0x370, 0x373),
      (0x376, 0x377), (0x37B, 0x37D), (0x37F, 0x37F), (0x386, 0x386), (0x388, 0x38A), (0x38C, 0x38C),
      (0x38E, 0x3A1), (0x3A3, 0x3F5), (0x3F7, 0x481), (0x48A, 0x52F), (0x531, 0x556), (0x560, 0x588),
      (0x10A0, 0x10C5), (0x10C7, 0x10C7), (0x10CD, 0x10CD), (0x10D0, 0x10FA), (0x10FD, 0x10FF), (0x13A0, 0x13F5),
      (0x13F8, 0x13FD), (0x1C80, 0x1C88), (0x1C90, 0x1CBA), (0x1CBD, 0x1CBF), (0x1D00, 0x1D2B), (0x1D6B, 0x1D77),
      (0x1D79, 0x1D9A), (0x1E00, 0x1F15), (0x1F18, 0x1F1D), (0x1F20, 0x1F45), (0x1F48, 0x1F4D), (0x1F50, 0x1F57),
      (0x1F59, 0x1F59), (0x1F5B, 0x1F5B), (0x1F5D, 0x1F5D), (0x1F5F, 0x1F7D), (0x1F80, 0x1FB4), (0x1FB6, 0x1FBC),
      (0x1FBE, 0x1FBE), (0x1FC2, 0x1FC4), (0x1FC6, 0x1FCC), (0x1FD0, 0x1FD3), (0x1FD6, 0x1FDB), (0x1FE0, 0x1FEC),
      (0x1FF2, 0x1FF4), (0x1FF6, 0x1FFC), (0x2102, 0x2102), (0x2107, 0x2107), (0x210A, 0x2113), (0x2115, 0x2115),
      (0x2119, 0x211D), (0x2124, 0x2124), (0x2126, 0x2126), (0x2128, 0x2128), (0x212A, 0x212D), (0x212F, 0x2134),
      (0x2139, 0x2139), (0x213C, 0x213F), (0x2145, 0x2149), (0x214E, 0x214E), (0x2160, 0x217F), (0x2183, 0x2184),
      (0x24B6, 0x24E9), (0x2C00, 0x2C7B), (0x2C7E, 0x2CE4), (0x2CEB, 0x2CEE), (0x2CF2, 0x2CF3), (0x2D00, 0x2D25),
      (0x2D27, 0x2D27), (0x2D2D, 0x2D2D), (0xA640, 0xA66D), (0xA680, 0xA69B), (0xA722, 0xA76F), (0xA771, 0xA787),
      (0xA78B, 0xA78E), (0xA790, 0xA7CA), (0xA7D0, 0xA7D1), (0xA7D3, 0xA7D3), (0xA7D5, 0xA7D9), (0xA7F5, 0xA7F6),
      (0xA7FA, 0xA7FA), (0xAB30, 0xAB5A), (0xAB60, 0xAB68), (0xAB70, 0xABBF), (0xFB00, 0xFB06), (0xFB13, 0xFB17),
      (0xFF21, 0xFF3A), (0xFF41, 0xFF5A), (0x10400, 0x1044F), (0x104B0, 0x104D3), (0x104D8, 0x104FB), (0x10570, 0x1057A),
      (0x1057C, 0x1058A), (0x1058C, 0x10592), (0x10594, 0x10595), (0x10597, 0x105A1), (0x105A3, 0x105B1), (0x105B3, 0x105B9),
      (0x105BB, 0x105BC), (0x10C80, 0x10CB2), (0x10CC0, 0x10CF2), (0x118A0, 0x118DF), (0x16E40, 0x16E7F), (0x1D400, 0x1D454),
      (0x1D456, 0x1D49C), (0x1D49E, 0x1D49F), (0x1D4A2, 0x1D4A2), (0x1D4A5, 0x1D4A6), (0x1D4A9, 0x1D4AC), (0x1D4AE, 0x1D4B9),
      (0x1D4BB, 0x1D4BB), (0x1D4BD, 0x1D4C3), (0x1D4C5, 0x1D505), (0x1D507, 0x1D50A), (0x1D50D, 0x1D514), (0x1D516, 0x1D51C),
      (0x1D51E, 0x1D539), (0x1D53B, 0x1D53E), (0x1D540, 0x1D544), (0x1D546, 0x1D546), (0x1D54A, 0x1D550), (0x1D552, 0x1D6A5),
      (0x1D6A8, 0x1D6C0), (0x1D6C2, 0x1D6DA), (0x1D6DC, 0x1D6FA), (0x1D6FC, 0x1D714), (0x1D716, 0x1D734), (0x1D736, 0x1D74E),
      (0x1D750, 0x1D76E), (0x1D770, 0x1D788), (0x1D78A, 0x1D7A8), (0x1D7AA, 0x1D7C2), (0x1D7C4, 0x1D7CB), (0x1DF00, 0x1DF09),
      (0x1DF0B, 0x1DF1E), (0x1E900, 0x1E943), (0x1F130, 0x1F149), (0x1F150, 0x1F169), (0x1F170, 0x1F189)]"

definition in_rows :: "(int \<times> int) list \<Rightarrow> int \<Rightarrow> bool" where
  "in_rows rows cp = list_ex (\<lambda>(lo, hi). lo \<le> cp \<and> cp \<le> hi) rows"

fun case_ignorable :: "scalar \<Rightarrow> bool" where
  "case_ignorable (Scalar cp) = in_rows case_ignorable_rows cp"
| "case_ignorable (Stray b) = False"

fun cased :: "scalar \<Rightarrow> bool" where
  "cased (Scalar cp) = in_rows cased_rows cp"
| "cased (Stray b) = False"

text \<open>
  The context \<open>Final_Sigma\<close>: going back over case-ignorable code points there is a
  cased one, and going forward over case-ignorable code points there is none.
  \<open>prev\<close> holds the preceding code points, nearest first.
\<close>

definition final_sigma :: "scalar list \<Rightarrow> scalar list \<Rightarrow> bool" where
  "final_sigma prev rest =
     ((case dropWhile case_ignorable prev of [] \<Rightarrow> False | c # _ \<Rightarrow> cased c) \<and>
      (case dropWhile case_ignorable rest of [] \<Rightarrow> True | c # _ \<Rightarrow> \<not> cased c))"

fun lower_one :: "scalar list \<Rightarrow> scalar \<Rightarrow> scalar list \<Rightarrow> scalar list" where
  "lower_one prev (Stray b) rest = [Stray b]"
| "lower_one prev (Scalar cp) rest =
     (if cp = 0x3A3 then [Scalar (if final_sigma prev rest then 0x3C2 else 0x3C3)]
      else if cp = 0x130 then [Scalar 0x69, Scalar 0x307]
      else [Scalar (simple_lower cp)])"

fun lower_from :: "scalar list \<Rightarrow> scalar list \<Rightarrow> scalar list" where
  "lower_from prev [] = []"
| "lower_from prev (c # rest) = lower_one prev c rest @ lower_from (c # prev) rest"

text \<open>\<^verbatim>\<open>String.prototype.toLowerCase\<close>: the Unicode default lower-casing of the text,
  independent of the locale.\<close>

definition toLowerCase :: "string \<Rightarrow> string" where
  "toLowerCase s = concat (map encode (lower_from [] (decode s)))"

section \<open>The blog listing page\<close>

text \<open>\<open>str_includes s t\<close> is \<^verbatim>\<open>s.includes(t)\<close>: \<open>t\<close> occurs in \<open>s\<close> as a
  contiguous piece.\<close>

definition str_includes :: "string \<Rightarrow> string \<Rightarrow> bool" where
  "str_includes s t = sublist t s"

definition matchesSearch :: "string \<Rightarrow> 'm post \<Rightarrow> bool" where
  "matchesSearch searchTerm post =
     (str_includes (toLowerCase (title post)) (toLowerCase searchTerm) \<or>
      str_includes (toLowerCase (description post)) (toLowerCase searchTerm))"

definition matchesCategory :: "string \<Rightarrow> 'm post \<Rightarrow> bool" where
  "matchesCategory activeCategory post =
     (activeCategory = ''All'' \<or> category post = activeCategory)"

definition filteredPosts :: "'m post list \<Rightarrow> string \<Rightarrow> string \<Rightarrow> 'm post list" where
  "filteredPosts allPosts searchTerm activeCategory =
     filter (\<lambda>post. matchesSearch searchTerm post \<and> matchesCategory activeCategory post)
       allPosts"

definition featuredPosts :: "'m post list \<Rightarrow> 'm post list" where
  "featuredPosts allPosts = filter (\<lambda>post. featured post) allPosts"

text \<open>The cards of the section ``Featured Article'': nothing when no post is featured,
  else \<^verbatim>\<open>featuredPosts.slice(0, 1)\<close>.\<close>

definition featuredSection :: "'m post list \<Rightarrow> 'm post list" where
  "featuredSection allPosts =
     (if length (featuredPosts allPosts) > 0 then take 1 (featuredPosts allPosts) else [])"

text \<open>The cards of the grid under ``Latest Articles''.\<close>

definition blogGrid :: "'m post list \<Rightarrow> string \<Rightarrow> string \<Rightarrow> 'm post list" where
  "blogGrid allPosts searchTerm activeCategory =
     filter (\<lambda>post. \<not> featured post) (filteredPosts allPosts searchTerm activeCategory)"

text \<open>The helpers \<open>search\<close> and \<open>byCategory\<close> are the page's filter with the other
  control at its initial state.\<close>

definition search :: "'m post list \<Rightarrow> string \<Rightarrow> 'm post list" where
  "search collection term = filteredPosts collection term ''All''"

definition byCategory :: "'m post list \<Rightarrow> string \<Rightarrow> 'm post list" where
  "byCategory collection cat = filteredPosts collection [] cat"

section \<open>The blog detail page\<close>

datatype page_error = NotFound

text \<open>\<^verbatim>\<open>allPosts.find((post) => post.slug === params.slug)\<close>: the first post with
  the slug, if any.\<close>

definition find_post :: "'m post list \<Rightarrow> string \<Rightarrow> 'm post option" where
  "find_post allPosts params_slug = find (\<lambda>post. slug post = params_slug) allPosts"

text \<open>The related posts of the page: same category, excluding the current post, the
  first three.\<close>

definition relatedPosts :: "'m post list \<Rightarrow> 'm post \<Rightarrow> 'm post list" where
  "relatedPosts allPosts post =
     take 3 (filter (\<lambda>p. category p = category post \<and> slug p \<noteq> slug post) allPosts)"

text \<open>The page component up to what it renders from: \<^verbatim>\<open>notFound()\<close> for an unknown
  slug, else the post and its related posts.\<close>

definition BlogPost :: "'m post list \<Rightarrow> string \<Rightarrow> page_error + 'm post \<times> 'm post list" where
  "BlogPost allPosts params_slug =
     (case find_post allPosts params_slug of
        None \<Rightarrow> Inl NotFound
      | Some post \<Rightarrow> Inr (post, relatedPosts allPosts post))"

section \<open>Case-insensitive matching, as the specification words it\<close>

text \<open>
  Letter case is given by the alphabet itself: each capital letter of \<open>A\<close> to \<open>Z\<close>
  is paired with its small letter. Two characters are the same letter when they are
  equal or form such a pair; two texts are equal up to case when they have the same
  length and the same letters; a term is a case-insensitive substring of a text when
  some contiguous piece of the text equals the term up to case.
\<close>

definition letter_pairs :: "(char \<times> char) list" where
  "letter_pairs = zip ''ABCDEFGHIJKLMNOPQRSTUVWXYZ'' ''abcdefghijklmnopqrstuvwxyz''"

definition same_letter :: "char \<Rightarrow> char \<Rightarrow> bool" where
  "same_letter a b = (a = b \<or> (a, b) \<in> set letter_pairs \<or> (b, a) \<in> set letter_pairs)"

definition ci_equal :: "string \<Rightarrow> string \<Rightarrow> bool" where
  "ci_equal s t = list_all2 same_letter s t"

definition ci_substring :: "string \<Rightarrow> string \<Rightarrow> bool" where
  "ci_substring term s = (\<exists>pre mid post. s = pre @ mid @ post \<and> ci_equal mid term)"

text \<open>Text whose characters are all in the ASCII range.\<close>

definition is_ascii :: "string \<Rightarrow> bool" where
  "is_ascii s = list_all (\<lambda>c. (of_char c :: int) < 0x80) s"

text \<open>The lower case of an ASCII character, used to describe \<open>toLowerCase\<close> on ASCII
  text.\<close>

definition ascii_lower :: "char \<Rightarrow> char" where
  "ascii_lower c =
     (if 0x41 \<le> (of_char c :: int) \<and> (of_char c :: int) \<le> 0x5A
      then char_of ((of_char c :: int) + 0x20) else c)"

section \<open>Concrete articles\<close>

text \<open>A stand-in for the body compiler in the examples: it hands the body text on.\<close>

definition compile_body :: "document \<Rightarrow> string option" where
  "compile_body d = Some (content d)"

text \<open>The front matter of \<^verbatim>\<open>content/posts/api-design-development.mdx\<close>.\<close>

definition api_design_data :: "string \<rightharpoonup> yaml" where
  "api_design_data =
     [''title'' \<mapsto> YStr ''The Complete Guide to API Design and Development'',
      ''description'' \<mapsto>
        YStr ''Master the art of designing and building robust APIs that power modern web applications.'',
      ''date'' \<mapsto> YStr ''2024-01-03'',
      ''author'' \<mapsto> YStr ''Alex Johnson'',
      ''category'' \<mapsto> YStr ''Backend Development'',
      ''tags'' \<mapsto> YSeq [YStr ''API'', YStr ''Backend'', YStr ''Node.js''],
      ''image'' \<mapsto> YStr ''/blog1.jpg'',
      ''featured'' \<mapsto> YBool False]"

definition api_design_meta :: meta where
  "api_design_meta =
     \<lparr>filePath = ''api-design-development.mdx'', fileName = ''api-design-development.mdx'',
      directory = ''.'', extension = ''mdx'', path = ''api-design-development''\<rparr>"

definition api_design_source :: article_source where
  "api_design_source =
     \<lparr>data = api_design_data,
      body = ''# The Complete Guide to API Design and Development'',
      source_meta = api_design_meta\<rparr>"

text \<open>An article that gives the five required keys and nothing else.\<close>

definition minimal_data :: "string \<rightharpoonup> yaml" where
  "minimal_data =
     [''title'' \<mapsto> YStr ''Release notes'',
      ''description'' \<mapsto> YStr ''What changed this month.'',
      ''date'' \<mapsto> YStr ''2024-02-01'',
      ''author'' \<mapsto> YStr ''Sarah Chen'',
      ''category'' \<mapsto> YStr ''Design'']"

definition minimal_source :: article_source where
  "minimal_source =
     \<lparr>data = minimal_data, body = ''# Release notes'',
      source_meta =
        \<lparr>filePath = ''release-notes.mdx'', fileName = ''release-notes.mdx'',
         directory = ''.'', extension = ''mdx'', path = ''release-notes''\<rparr>\<rparr>"

text \<open>The first article again, with the key \<^verbatim>\<open>author\<close> left out.\<close>

definition no_author_source :: article_source where
  "no_author_source =
     \<lparr>data = api_design_data(''author'' := None),
      body = ''# Draft'',
      source_meta =
        \<lparr>filePath = ''draft.mdx'', fileName = ''draft.mdx'',
         directory = ''.'', extension = ''mdx'', path = ''draft''\<rparr>\<rparr>"

text \<open>Entries of \<^verbatim>\<open>allPosts\<close> for the listing page; the fields the page does not
  filter on are the same in all of them.\<close>

definition example_post :: "string \<Rightarrow> string \<Rightarrow> string \<Rightarrow> bool \<Rightarrow> string \<Rightarrow> string post" where
  "example_post t ds c f s =
     \<lparr>title = t, description = ds, date = ''2024-01-08'', author = ''Emily Davis'',
      category = c, tags = None, image = Some ''/blog1.jpg'', featured = f,
      content = [],
      meta = \<lparr>filePath = s @ ''.mdx'', fileName = s @ ''.mdx'', directory = ''.'',
              extension = ''mdx'', path = s\<rparr>,
      mdx = [], slug = s, url = ''/blog/'' @ s\<rparr>"

definition seo_post :: "string post" where
  "seo_post =
     example_post ''SEO Strategies That Actually Work in 2024''
       ''Cut through the noise and learn what delivers real results.''
       ''Digital Marketing'' False ''seo-strategies''"

definition ui_ux_post :: "string post" where
  "ui_ux_post =
     example_post ''UI/UX Design Principles That Drive Conversions''
       ''Learn how to design user interfaces that convert visitors into customers.''
       ''Design'' False ''ui-ux-design-principles''"

definition design_tokens_post :: "string post" where
  "design_tokens_post =
     example_post ''Design Tokens in Practice''
       ''Keep colours and spacing consistent across products.''
       ''Design'' False ''design-tokens''"

definition launch_post :: "string post" where
  "launch_post =
     example_post ''Launch Week''
       ''Everything we shipped, including new seo tooling.''
       ''Design'' True ''launch-week''"

definition typography_post :: "string post" where
  "typography_post =
     example_post ''Typography on the Web''
       ''Choosing and pairing typefaces.''
       ''Design'' False ''typography''"

definition colour_post :: "string post" where
  "colour_post =
     example_post ''Colour and Contrast''
       ''Accessible palettes for interfaces.''
       ''Design'' False ''colour-and-contrast''"




definition api_design_document :: document where
  "api_design_document =
     frontmatter.extend
       \<lparr>title = ''The Complete Guide to API Design and Development'',
        description =
          ''Master the art of designing and building robust APIs that power modern web applications.'',
        date = ''2024-01-03'', author = ''Alex Johnson'', category = ''Backend Development'',
        tags = Some [''API'', ''Backend'', ''Node.js''], image = Some ''/blog1.jpg'',
        featured = False\<rparr>
       (document.fields ''# The Complete Guide to API Design and Development''
          api_design_meta)"

section \<open>Facts about the combinators and the collection\<close>

lemma ap_Inr_iff: "ap f x = Inr y \<longleftrightarrow> (\<exists>g a. f = Inr g \<and> x = Inr a \<and> y = g a)"
  by (cases f; cases x) auto

lemma field_optional_absent: "d k = None \<Longrightarrow> field k (z_optional s) d = Inr None"
  by (simp add: field_def z_optional_def)

lemma field_default_absent: "d k = None \<Longrightarrow> field k (z_default s v) d = Inr v"
  by (simp add: field_def z_default_def)

lemma posts_schema_tags:
  "posts_schema d = Inr fm \<Longrightarrow> field ''tags'' (z_optional (z_array z_string)) d = Inr (tags fm)"
  unfolding posts_schema_def ap_Inr_iff by auto

lemma posts_schema_featured:
  "posts_schema d = Inr fm \<Longrightarrow>
     field ''featured'' (z_default (z_optional z_boolean) False) d = Inr (featured fm)"
  unfolding posts_schema_def ap_Inr_iff by auto

lemma posts_transform_Inr:
  "posts_transform c doc = Inr r \<Longrightarrow>
     \<exists>m. c doc = Some m \<and>
       r = document.extend doc (post.fields m (path (meta doc)) (''/blog/'' @ path (meta doc)))"
  by (auto simp: posts_transform_def split: option.splits)

lemma parse_Inr:
  "parse c src = Inr r \<Longrightarrow>
     \<exists>fm. posts_schema (data src) = Inr fm \<and>
       posts_transform c (frontmatter.extend fm (document.fields (body src) (source_meta src))) = Inr r"
  by (auto simp: parse_def split: sum.splits)

lemma parse_keeps_frontmatter:
  assumes "parse c src = Inr r" and "posts_schema (data src) = Inr fm"
  shows "tags r = tags fm" and "featured r = featured fm"
  using assms
  by (auto dest!: parse_Inr posts_transform_Inr simp: document.defs frontmatter.defs post.defs)

lemma posts_schema_minimal:
  "posts_schema minimal_data =
     Inr \<lparr>title = ''Release notes'', description = ''What changed this month.'',
          date = ''2024-02-01'', author = ''Sarah Chen'', category = ''Design'',
          tags = None, image = None, featured = False\<rparr>"
  by (simp add: posts_schema_def minimal_data_def field_def z_string_def z_optional_def
      z_default_def)

lemma parse_minimal:
  "parse compile_body minimal_source =
     Inr \<lparr>title = ''Release notes'', description = ''What changed this month.'',
          date = ''2024-02-01'', author = ''Sarah Chen'', category = ''Design'',
          tags = None, image = None, featured = False,
          content = ''# Release notes'',
          meta = \<lparr>filePath = ''release-notes.mdx'', fileName = ''release-notes.mdx'',
                  directory = ''.'', extension = ''mdx'', path = ''release-notes''\<rparr>,
          mdx = ''# Release notes'', slug = ''release-notes'', url = ''/blog/release-notes''\<rparr>"
  by (simp add: parse_def minimal_source_def posts_schema_minimal posts_transform_def
      compile_body_def frontmatter.defs document.defs post.defs)

lemma posts_schema_api_design:
  "posts_schema api_design_data =
     Inr \<lparr>title = ''The Complete Guide to API Design and Development'',
          description =
            ''Master the art of designing and building robust APIs that power modern web applications.'',
          date = ''2024-01-03'', author = ''Alex Johnson'', category = ''Backend Development'',
          tags = Some [''API'', ''Backend'', ''Node.js''], image = Some ''/blog1.jpg'',
          featured = False\<rparr>"
  by (simp add: posts_schema_def api_design_data_def field_def z_string_def z_optional_def
      z_default_def z_array_def z_boolean_def enumerate_eq_zip)

lemma parse_api_design:
  "parse compile_body api_design_source = posts_transform compile_body api_design_document"
  by (simp add: parse_def api_design_source_def posts_schema_api_design api_design_document_def)

lemma reports_ap_left: "reports i f \<Longrightarrow> reports i (ap f x)"
  by (cases f; cases x) (auto simp: reports_def)

lemma reports_ap_right: "reports i x \<Longrightarrow> reports i (ap f x)"
  by (cases f; cases x) (auto simp: reports_def)

lemma field_required_absent: "d k = None \<Longrightarrow> reports ([Key k], Required) (field k z_string d)"
  by (simp add: field_def z_string_def reports_def)

lemma posts_schema_reports:
  assumes "k \<in> set required_fields" and "d k = None"
  shows "reports ([Key k], Required) (posts_schema d)"
proof -
  note f = field_required_absent [of d k, OF assms(2)]
  from assms(1) consider "k = ''title''" | "k = ''description''" | "k = ''date''"
    | "k = ''author''" | "k = ''category''"
    by (auto simp: required_fields_def)
  then show ?thesis
  proof cases
    case 1
    with f show ?thesis unfolding posts_schema_def
      by (intro reports_ap_left reports_ap_right) simp
  next
    case 2
    with f show ?thesis unfolding posts_schema_def
      by (intro reports_ap_left reports_ap_right) simp
  next
    case 3
    with f show ?thesis unfolding posts_schema_def
      by (intro reports_ap_left reports_ap_right) simp
  next
    case 4
    with f show ?thesis unfolding posts_schema_def
      by (intro reports_ap_left reports_ap_right) simp
  next
    case 5
    with f show ?thesis unfolding posts_schema_def
      by (intro reports_ap_left reports_ap_right) simp
  qed
qed

lemma parse_reports:
  assumes "reports i (posts_schema (data src))"
  shows "\<exists>es. parse c src = Inl (ValidationError es) \<and> i \<in> set es"
  using assms by (auto simp: parse_def reports_def split: sum.splits)

lemma parse_no_author:
  "parse compile_body no_author_source = Inl (ValidationError [([Key ''author''], Required)])"
  by (simp add: parse_def no_author_source_def posts_schema_def api_design_data_def field_def
      z_string_def z_optional_def z_default_def z_array_def z_boolean_def enumerate_eq_zip)

lemma published_append:
  "published c (xs @ ys) = published c xs @ published c ys"
  by (simp add: published_def)

lemma published_Cons:
  "published c (s # ys) = (case parse c s of Inl e \<Rightarrow> [] | Inr r \<Rightarrow> [r]) @ published c ys"
  by (simp add: published_def)

lemma published_complete:
  "s \<in> set srcs \<Longrightarrow> parse c s = Inr r \<Longrightarrow> r \<in> set (published c srcs)"
  by (force simp: published_def)

subsection \<open>Lower-casing and matching\<close>

lemma sublist_map_iff:
  "sublist (map f t) (map f s) \<longleftrightarrow>
     (\<exists>pre mid post. s = pre @ mid @ post \<and> map f mid = map f t)"
proof
  assume "sublist (map f t) (map f s)"
  then obtain mid where "sublist mid s" and "map f t = map f mid"
    using sublist_map_rightE by blast
  then show "\<exists>pre mid post. s = pre @ mid @ post \<and> map f mid = map f t"
    unfolding sublist_def by metis
next
  assume "\<exists>pre mid post. s = pre @ mid @ post \<and> map f mid = map f t"
  then obtain pre mid post where "s = pre @ mid @ post" and "map f mid = map f t"
    by blast
  then have "map f s = map f pre @ map f t @ map f post"
    by simp
  then show "sublist (map f t) (map f s)"
    unfolding sublist_def by blast
qed

subsection \<open>Lower-casing of ASCII text\<close>

lemma of_char_range: "0 \<le> (of_char c :: int) \<and> (of_char c :: int) < 256"
  by (simp add: of_char_def) 

lemma utf8_head_ascii:
  "(of_char b :: int) < 0x80 \<Longrightarrow> utf8_head (b # bs) = Some (of_char b, 1)"
  by (simp add: utf8_head_def)

lemma decode_ascii: "is_ascii s \<Longrightarrow> decode s = map (\<lambda>c. Scalar (of_char c)) s"
  by (induction s) (simp_all add: is_ascii_def utf8_head_ascii)

lemma lower_rows_split:
  "lower_rows = (0x41, 0x5A, 1, 0x61) # tl lower_rows \<and>
   list_all (\<lambda>(lo, hi, st, low). 0x80 \<le> lo) (tl lower_rows)"
  by (simp add: lower_rows_def)

lemma find_none: "list_all (\<lambda>x. \<not> P x) xs \<Longrightarrow> find P xs = None"
  by (induction xs) auto

lemma simple_lower_ascii:
  assumes "n < 0x80"
  shows "simple_lower n = (if 0x41 \<le> n \<and> n \<le> 0x5A then n + 0x20 else n)"
proof -
  let ?P = "\<lambda>(lo, hi, st, low). lo \<le> n \<and> n \<le> hi \<and> (n - lo) mod st = 0"
  from lower_rows_split have "list_all (\<lambda>x. \<not> ?P x) (tl lower_rows)"
    using assms by (auto simp: list_all_iff)
  then have none: "find ?P (tl lower_rows) = None"
    by (rule find_none)
  have "find ?P lower_rows =
          (if 0x41 \<le> n \<and> n \<le> 0x5A then Some (0x41, 0x5A, 1, 0x61) else None)"
    using lower_rows_split none by (metis (mono_tags, lifting) find.simps(2) case_prod_conv mod_by_1)
  then show ?thesis
    by (simp add: simple_lower_def)
qed

lemma ascii_lower_eq:
  "(of_char c :: int) < 0x80 \<Longrightarrow> char_of (simple_lower (of_char c)) = ascii_lower c"
  by (simp add: simple_lower_ascii ascii_lower_def)

lemma simple_lower_ascii_bound:
  "0 \<le> n \<Longrightarrow> n < 0x80 \<Longrightarrow> 0 \<le> simple_lower n \<and> simple_lower n < 0x80"
  by (simp add: simple_lower_ascii)

lemma lower_from_ascii:
  "is_ascii s \<Longrightarrow>
     lower_from prev (map (\<lambda>c. Scalar (of_char c)) s) =
       map (\<lambda>c. Scalar (simple_lower (of_char c))) s"
  by (induction s arbitrary: prev) (auto simp: is_ascii_def)

lemma encode_ascii:
  "(of_char c :: int) < 0x80 \<Longrightarrow> encode (Scalar (simple_lower (of_char c))) = [ascii_lower c]"
  using simple_lower_ascii_bound [of "of_char c"] of_char_range [of c]
  by (simp add: ascii_lower_eq)

lemma toLowerCase_ascii: "is_ascii s \<Longrightarrow> toLowerCase s = map ascii_lower s"
proof -
  assume a: "is_ascii s"
  have "concat (map (\<lambda>c. encode (Scalar (simple_lower (of_char c)))) s) = map ascii_lower s"
    using a by (induction s) (simp_all add: is_ascii_def encode_ascii del: encode.simps)
  with a show ?thesis
    by (simp add: toLowerCase_def decode_ascii lower_from_ascii o_def del: encode.simps)
qed

subsection \<open>Letters and their case\<close>

lemma letter_pairs_upper:
  "list_all (\<lambda>(u, l). 0x41 \<le> (of_char u :: int) \<and> (of_char u :: int) \<le> 0x5A \<and>
                       l = char_of ((of_char u :: int) + 0x20)) letter_pairs"
  by code_simp

lemma upper_in_letter_pairs:
  "list_all (\<lambda>n. (char_of n, char_of (n + 0x20)) \<in> set letter_pairs) [0x41 .. (0x5A :: int)]"
  by code_simp

lemma letter_pairs_iff:
  "(a, b) \<in> set letter_pairs \<longleftrightarrow>
     0x41 \<le> (of_char a :: int) \<and> (of_char a :: int) \<le> 0x5A \<and> b = ascii_lower a"
proof
  assume "(a, b) \<in> set letter_pairs"
  with letter_pairs_upper show "0x41 \<le> (of_char a :: int) \<and> (of_char a :: int) \<le> 0x5A \<and> b = ascii_lower a"
    by (auto simp: list_all_iff ascii_lower_def)
next
  assume r: "0x41 \<le> (of_char a :: int) \<and> (of_char a :: int) \<le> 0x5A \<and> b = ascii_lower a"
  then have "of_char a \<in> set [0x41 .. (0x5A :: int)]"
    by (simp only: set_upto atLeastAtMost_iff)
  with upper_in_letter_pairs
  have "(char_of (of_char a :: int), char_of ((of_char a :: int) + 0x20)) \<in> set letter_pairs"
    unfolding list_all_iff by blast
  with r show "(a, b) \<in> set letter_pairs"
    by (simp add: ascii_lower_def)
qed

lemma ascii_lower_code:
  "(of_char (ascii_lower c) :: int) =
     (if 0x41 \<le> (of_char c :: int) \<and> (of_char c :: int) \<le> 0x5A then of_char c + 0x20 else of_char c)"
  by (simp add: ascii_lower_def)

lemma ascii_lower_eq_iff: "ascii_lower a = ascii_lower b \<longleftrightarrow> same_letter a b"
proof -
  define x y where "x = (of_char a :: int)" and "y = (of_char b :: int)"
  define f where "f n = (if 0x41 \<le> n \<and> n \<le> 0x5A then n + 0x20 else n)" for n :: int
  have fa: "(of_char (ascii_lower a) :: int) = f x" and fb: "(of_char (ascii_lower b) :: int) = f y"
    by (simp_all add: ascii_lower_code f_def x_def y_def)
  have 1: "ascii_lower a = ascii_lower b \<longleftrightarrow> f x = f y"
    using of_char_eq_iff [of "ascii_lower a" "ascii_lower b", where ?'a = int] fa fb by simp
  have 2: "a = b \<longleftrightarrow> x = y"
    by (simp add: x_def y_def)
  have 3: "b = ascii_lower a \<longleftrightarrow> y = f x"
    using of_char_eq_iff [of b "ascii_lower a", where ?'a = int] fa by (simp add: y_def)
  have 4: "a = ascii_lower b \<longleftrightarrow> x = f y"
    using of_char_eq_iff [of a "ascii_lower b", where ?'a = int] fb by (simp add: x_def)
  have "f x = f y \<longleftrightarrow>
          x = y \<or> (0x41 \<le> x \<and> x \<le> 0x5A \<and> y = f x) \<or> (0x41 \<le> y \<and> y \<le> 0x5A \<and> x = f y)"
    by (auto simp: f_def split: if_splits)
  then show ?thesis
    unfolding same_letter_def letter_pairs_iff 1 2 3 4 by (simp add: x_def y_def)
qed

lemma map_ascii_lower_eq_iff: "map ascii_lower s = map ascii_lower t \<longleftrightarrow> ci_equal s t"
proof -
  have "list_all2 (\<lambda>a b. ascii_lower a = ascii_lower b) s t \<longleftrightarrow>
          list_all2 (=) (map ascii_lower s) (map ascii_lower t)"
    by (simp add: list.rel_map)
  then have "map ascii_lower s = map ascii_lower t \<longleftrightarrow>
          list_all2 (\<lambda>a b. ascii_lower a = ascii_lower b) s t"
    by (simp add: list.rel_eq)
  then show ?thesis
    by (simp add: ci_equal_def ascii_lower_eq_iff)
qed

lemma includes_lower_ascii:
  assumes "is_ascii s" and "is_ascii t"
  shows "str_includes (toLowerCase s) (toLowerCase t) \<longleftrightarrow> ci_substring t s"
  by (simp add: str_includes_def toLowerCase_ascii assms sublist_map_iff ci_substring_def
      map_ascii_lower_eq_iff)

subsection \<open>Matching on the pages\<close>

lemma matchesSearch_empty: "matchesSearch [] p"
  by (simp add: matchesSearch_def str_includes_def toLowerCase_def)

lemma ci_substring_iff:
  "ci_substring t s \<longleftrightarrow> sublist (map ascii_lower t) (map ascii_lower s)"
  by (simp add: ci_substring_def sublist_map_iff map_ascii_lower_eq_iff)

lemma matchesSearch_ascii:
  assumes "is_ascii t" and "is_ascii (title p)" and "is_ascii (description p)"
  shows "matchesSearch t p \<longleftrightarrow> ci_substring t (title p) \<or> ci_substring t (description p)"
  by (simp add: matchesSearch_def includes_lower_ascii assms)




lemma ascii_SEO: "is_ascii ''SEO''"
  by code_simp

lemma toLowerCase_SEO: "toLowerCase ''SEO'' = ''seo''"
  unfolding toLowerCase_ascii [OF ascii_SEO] by code_simp


lemma example_posts_ascii:
  "is_ascii (title seo_post)" "is_ascii (description seo_post)"
  "is_ascii (title ui_ux_post)" "is_ascii (description ui_ux_post)"
  "is_ascii (title launch_post)" "is_ascii (description launch_post)"
  by code_simp+

lemma example_posts_SEO:
  "ci_substring ''SEO'' (title seo_post)"
  "\<not> ci_substring ''SEO'' (title ui_ux_post)"
  "\<not> ci_substring ''SEO'' (description ui_ux_post)"
  "ci_substring ''SEO'' (description launch_post)"
  "ci_substring ''seo strategies'' (title seo_post)"
  unfolding ci_substring_iff by code_simp+




lemma grid_filtered_example:
  "filteredPosts [ui_ux_post, launch_post] ''SEO'' ''Design'' = [launch_post]"
proof -
  have "\<not> matchesSearch ''SEO'' ui_ux_post" and "matchesSearch ''SEO'' launch_post"
    by (simp_all add: matchesSearch_ascii ascii_SEO example_posts_ascii example_posts_SEO)
  moreover have "category launch_post = ''Design''"
    by (simp add: launch_post_def example_post_def)
  ultimately show ?thesis
    by (simp add: filteredPosts_def matchesCategory_def)
qed

lemma find_post_Some:
  "find_post allPosts s = Some post \<Longrightarrow> post \<in> set allPosts \<and> slug post = s"
  by (auto simp: find_post_def find_Some_iff)

section \<open>Optional keys of the front matter\<close>

text \<open>
  C1, as the code has it. The key \<^verbatim>\<open>tags\<close> is declared
  \<^verbatim>\<open>z.array(z.string()).optional()\<close> with no default. For every article whose front
  matter omits \<^verbatim>\<open>tags\<close> and that parses, the validated front matter and the
  resulting record have \<^verbatim>\<open>tags\<close> absent (\<open>None\<close>); the listing page guards the tag
  list with \<^verbatim>\<open>post.tags &&\<close> for that reason.
\<close>

theorem tags_omitted_absent:
  assumes "data src ''tags'' = None"
  shows "(posts_schema (data src) = Inr fm \<longrightarrow> tags fm = None) \<and>
         (parse compileMDX src = Inr r \<longrightarrow> tags r = None)"
proof -
  have fm: "tags fm' = None" if "posts_schema (data src) = Inr fm'" for fm'
    using posts_schema_tags [OF that]
      field_optional_absent [of "data src" "''tags''" "z_array z_string", OF assms]
    by simp
  have "tags r = None" if "parse compileMDX src = Inr r"
  proof -
    from parse_Inr [OF that] obtain fm' where s: "posts_schema (data src) = Inr fm'"
      by blast
    from parse_keeps_frontmatter(1) [OF that s] fm [OF s] show ?thesis by simp
  qed
  with fm show ?thesis by blast
qed

theorem tags_omitted_absent_witness:
  "data minimal_source ''tags'' = None \<and>
   map_sum id tags (parse compile_body minimal_source) = Inr None"
proof -
  have d: "data minimal_source ''tags'' = None"
    by (simp add: minimal_source_def minimal_data_def)
  from tags_omitted_absent [OF d, of _ compile_body] d show ?thesis
    by (simp add: parse_minimal)
qed

text \<open>
  C1, as the specification words it, asks for the empty sequence. The article
  \<open>minimal_source\<close> omits \<^verbatim>\<open>tags\<close>, parses, and its record does not carry the empty
  sequence.
\<close>

theorem tags_omitted_counterexample:
  "data minimal_source ''tags'' = None \<and>
   map_sum id tags (posts_schema (data minimal_source)) \<noteq> Inr (Some []) \<and>
   map_sum id tags (parse compile_body minimal_source) \<noteq> Inr (Some [])"
proof -
  have d: "data minimal_source = minimal_data"
    by (simp add: minimal_source_def)
  have "minimal_data ''tags'' = None"
    by (simp add: minimal_data_def)
  then show ?thesis
    by (simp add: d parse_minimal posts_schema_minimal)
qed

text \<open>
  C5. The key \<^verbatim>\<open>featured\<close> is declared \<^verbatim>\<open>z.boolean().optional().default(false)\<close>.
  For every article whose front matter omits \<^verbatim>\<open>featured\<close> and that parses, the
  record's \<^verbatim>\<open>featured\<close> is the boolean \<open>False\<close>; the field has type \<open>bool\<close>, so it
  is never absent.
\<close>

theorem featured_omitted_false:
  assumes "data src ''featured'' = None"
  shows "(posts_schema (data src) = Inr fm \<longrightarrow> featured fm = False) \<and>
         (parse compileMDX src = Inr r \<longrightarrow> featured r = False)"
proof -
  have fm: "featured fm' = False" if "posts_schema (data src) = Inr fm'" for fm'
    using posts_schema_featured [OF that]
      field_default_absent [of "data src" "''featured''" "z_optional z_boolean" False, OF assms]
    by simp
  have "featured r = False" if "parse compileMDX src = Inr r"
  proof -
    from parse_Inr [OF that] obtain fm' where s: "posts_schema (data src) = Inr fm'"
      by blast
    from parse_keeps_frontmatter(2) [OF that s] fm [OF s] show ?thesis by simp
  qed
  with fm show ?thesis by blast
qed

theorem featured_omitted_false_witness:
  "data minimal_source ''featured'' = None \<and>
   map_sum id featured (parse compile_body minimal_source) = Inr False"
proof -
  have d: "data minimal_source ''featured'' = None"
    by (simp add: minimal_source_def minimal_data_def)
  from featured_omitted_false [OF d, of _ compile_body] d show ?thesis
    by (simp add: parse_minimal)
qed

section \<open>Derived fields\<close>

text \<open>
  C3. Every record that \<^verbatim>\<open>transform\<close> returns has \<^verbatim>\<open>slug\<close> equal to the document's
  path and \<^verbatim>\<open>url\<close> equal to \<^verbatim>\<open>/blog/\<close> followed by the slug; a record with slug
  \<^verbatim>\<open>api-design-development\<close> has url \<^verbatim>\<open>/blog/api-design-development\<close> exactly.
\<close>

theorem url_is_prefix_plus_slug:
  assumes "posts_transform compileMDX doc = Inr r"
  shows "slug r = path (meta doc) \<and> url r = ''/blog/'' @ slug r \<and>
         (slug r = ''api-design-development'' \<longrightarrow> url r = ''/blog/api-design-development'')"
  using posts_transform_Inr [OF assms]
  by (auto simp: document.defs post.defs)

theorem url_is_prefix_plus_slug_witness:
  "map_sum id slug (posts_transform compile_body api_design_document) =
     Inr ''api-design-development'' \<and>
   map_sum id url (posts_transform compile_body api_design_document) =
     Inr ''/blog/api-design-development''"
proof -
  obtain r where r: "posts_transform compile_body api_design_document = Inr r"
    by (simp add: posts_transform_def compile_body_def)
  have "path (meta api_design_document) = ''api-design-development''"
    by (simp add: api_design_document_def frontmatter.defs document.defs api_design_meta_def)
  with url_is_prefix_plus_slug [OF r] r show ?thesis
    by simp
qed

section \<open>The compiled configuration agrees with its source\<close>

text \<open>
  C9. The collection in the compiled configuration and the collection in
  \<^verbatim>\<open>content-collections.ts\<close> validate every front matter to the same result (the
  same required, optional and defaulted keys) and transform every document to the
  same record, in particular to the same \<^verbatim>\<open>slug\<close> and \<^verbatim>\<open>url\<close>.
\<close>

theorem compiled_config_equivalent:
  "compiled_posts_schema d = posts_schema d \<and>
   compiled_posts_transform compileMDX doc = posts_transform compileMDX doc \<and>
   map_sum id slug (compiled_posts_transform compileMDX doc) =
     map_sum id slug (posts_transform compileMDX doc) \<and>
   map_sum id url (compiled_posts_transform compileMDX doc) =
     map_sum id url (posts_transform compileMDX doc)"
  by (simp add: compiled_posts_schema_def posts_schema_def compiled_posts_transform_def
      posts_transform_def)

section \<open>Skip and report\<close>

text \<open>
  C2. For every article whose front matter misses one of the required keys
  \<^verbatim>\<open>title\<close>, \<^verbatim>\<open>description\<close>, \<^verbatim>\<open>date\<close>, \<^verbatim>\<open>author\<close>, \<^verbatim>\<open>category\<close>:
  \<open>parse\<close> returns a validation error that lists an issue at the path of that key
  instead of a record; the published collection is the one obtained without that file;
  and the record of every other file of the run that parses is in the published
  collection.
\<close>

theorem missing_required_field_skipped:
  assumes "k \<in> set required_fields" and "data src k = None"
  shows "(\<exists>es. parse compileMDX src = Inl (ValidationError es) \<and> ([Key k], Required) \<in> set es) \<and>
         fst (publish compileMDX (before @ src # after)) =
           fst (publish compileMDX (before @ after)) \<and>
         (\<forall>s \<in> set (before @ after). \<forall>r. parse compileMDX s = Inr r \<longrightarrow>
            r \<in> set (fst (publish compileMDX (before @ src # after))))"
proof -
  from posts_schema_reports [of k "data src", OF assms] obtain es
    where es: "parse compileMDX src = Inl (ValidationError es)" "([Key k], Required) \<in> set es"
    using parse_reports by blast
  have eq: "published compileMDX (before @ src # after) = published compileMDX (before @ after)"
    by (simp add: published_append published_Cons es(1))
  have "r \<in> set (published compileMDX (before @ after))"
    if "s \<in> set (before @ after)" and "parse compileMDX s = Inr r" for s r
    using that by (rule published_complete)
  with es eq show ?thesis
    by (simp add: publish_def)
qed

theorem missing_required_field_skipped_witness:
  "''author'' \<in> set required_fields \<and> data no_author_source ''author'' = None \<and>
   parse compile_body no_author_source =
     Inl (ValidationError [([Key ''author''], Required)]) \<and>
   fst (publish compile_body [api_design_source, no_author_source, minimal_source]) =
     fst (publish compile_body [api_design_source, minimal_source]) \<and>
   map slug (fst (publish compile_body [api_design_source, no_author_source, minimal_source])) =
     [''api-design-development'', ''release-notes'']"
proof -
  have k: "''author'' \<in> set required_fields"
    by (simp add: required_fields_def)
  have d: "data no_author_source ''author'' = None"
    by (simp add: no_author_source_def)
  have p: "map slug (fst (publish compile_body [api_design_source, minimal_source])) =
     [''api-design-development'', ''release-notes'']"
    by (simp add: publish_def published_def parse_minimal parse_api_design posts_transform_def
        compile_body_def api_design_document_def frontmatter.defs document.defs post.defs
        api_design_meta_def)
  from missing_required_field_skipped
    [OF k d, of compile_body "[api_design_source]" "[minimal_source]"] k d p parse_no_author
  show ?thesis by simp
qed

section \<open>Search and category filter of the listing page\<close>




text \<open>
  C8. For every collection, searching with the empty term returns the collection
  itself, unchanged and in the same order.
\<close>

theorem search_empty_term_identity: "search collection [] = collection"
  by (simp add: search_def filteredPosts_def matchesCategory_def matchesSearch_empty)

text \<open>
  C6, as the code has it. The page's filter treats the category \<^verbatim>\<open>All\<close> as
  ``no filter''. For every collection and every category string other than
  \<^verbatim>\<open>All\<close>, \<open>byCategory\<close> returns exactly the records whose category equals the
  string, character for character; for \<^verbatim>\<open>All\<close> it returns the whole collection.
\<close>

theorem byCategory_exact_match:
  "(cat \<noteq> ''All'' \<longrightarrow> byCategory collection cat = filter (\<lambda>r. category r = cat) collection) \<and>
   byCategory collection ''All'' = collection"
  by (simp add: byCategory_def filteredPosts_def matchesCategory_def matchesSearch_empty)

theorem byCategory_exact_match_witness:
  "''Design'' \<noteq> ''All'' \<and>
   byCategory [seo_post, ui_ux_post, design_tokens_post] ''Design'' =
     [ui_ux_post, design_tokens_post] \<and>
   byCategory [seo_post, ui_ux_post, design_tokens_post] ''design'' = []"
  using byCategory_exact_match [of "''Design''" "[seo_post, ui_ux_post, design_tokens_post]"]
    byCategory_exact_match [of "''design''" "[seo_post, ui_ux_post, design_tokens_post]"]
  by (simp add: seo_post_def ui_ux_post_def design_tokens_post_def example_post_def)

text \<open>
  C6, as the specification words it, fails at the category \<^verbatim>\<open>All\<close>: the filter
  returns a record whose category is \<^verbatim>\<open>Design\<close>, which is not a match of
  \<^verbatim>\<open>All\<close>.
\<close>

theorem byCategory_All_counterexample:
  "byCategory [ui_ux_post] ''All'' = [ui_ux_post] \<and> category ui_ux_post \<noteq> ''All''"
  by (simp add: byCategory_def filteredPosts_def matchesCategory_def matchesSearch_empty
      ui_ux_post_def example_post_def)

section \<open>Featured posts on the listing page\<close>

text \<open>
  C10. A post with \<^verbatim>\<open>featured\<close> true is never a card of the grid, whatever the
  search term and the active category, also when it passes the page's filter; the
  cards of the featured section are featured posts of the collection.
\<close>

theorem grid_excludes_featured:
  "(featured p \<longrightarrow> p \<notin> set (blogGrid allPosts searchTerm activeCategory)) \<and>
   (\<forall>q \<in> set (featuredSection allPosts). featured q \<and> q \<in> set allPosts)"
  by (auto simp: blogGrid_def featuredSection_def featuredPosts_def dest: in_set_takeD)

theorem grid_excludes_featured_witness:
  "featured launch_post \<and>
   launch_post \<in> set (filteredPosts [ui_ux_post, launch_post] ''SEO'' ''Design'') \<and>
   launch_post \<notin> set (blogGrid [ui_ux_post, launch_post] ''SEO'' ''Design'') \<and>
   featuredSection [ui_ux_post, launch_post] = [launch_post]"
proof -
  have f: "featured launch_post"
    by (simp add: launch_post_def example_post_def)
  have m: "filteredPosts [ui_ux_post, launch_post] ''SEO'' ''Design'' = [launch_post]"
    by (rule grid_filtered_example)
  have s: "featuredSection [ui_ux_post, launch_post] = [launch_post]"
    by (simp add: featuredSection_def featuredPosts_def launch_post_def ui_ux_post_def
        example_post_def)
  from grid_excludes_featured [of launch_post "[ui_ux_post, launch_post]" "''SEO''" "''Design''"]
    f m s show ?thesis by simp
qed

section \<open>Related posts on the detail page\<close>

text \<open>
  C7, as the code has it. For every collection and record, the related posts of the
  detail page never contain the record itself (exclusion by slug equality), contain
  only records of the collection whose category equals the record's, are at most
  three (the limit is the constant of \<^verbatim>\<open>.slice(0, 3)\<close>, the page takes no limit),
  and come in the collection's order. The page computes them for the first post with
  the requested slug and answers \<^verbatim>\<open>notFound()\<close> when there is none.
\<close>

theorem relatedPosts_properties:
  "recordA \<notin> set (relatedPosts collection recordA) \<and>
   (\<forall>r \<in> set (relatedPosts collection recordA).
      r \<in> set collection \<and> category r = category recordA \<and> slug r \<noteq> slug recordA) \<and>
   length (relatedPosts collection recordA) \<le> 3 \<and>
   subseq (relatedPosts collection recordA) collection \<and>
   (\<forall>post rel. BlogPost collection s = Inr (post, rel) \<longrightarrow>
      post \<in> set collection \<and> slug post = s \<and> rel = relatedPosts collection post) \<and>
   (find_post collection s = None \<longrightarrow> BlogPost collection s = Inl NotFound)"
proof -
  let ?f = "filter (\<lambda>p. category p = category recordA \<and> slug p \<noteq> slug recordA) collection"
  have "sublist (take 3 ?f) ?f"
    by (rule sublist_take)
  then have "subseq (take 3 ?f) ?f"
    by (rule sublist_imp_subseq)
  then have order: "subseq (relatedPosts collection recordA) collection"
    unfolding relatedPosts_def using subseq_filter_left subseq_order.order_trans by blast
  have members: "r \<in> set collection \<and> category r = category recordA \<and> slug r \<noteq> slug recordA"
    if "r \<in> set (relatedPosts collection recordA)" for r
    using that by (auto simp: relatedPosts_def dest: in_set_takeD)
  have page: "post \<in> set collection \<and> slug post = s \<and> rel = relatedPosts collection post"
    if "BlogPost collection s = Inr (post, rel)" for post rel
    using that find_post_Some [of collection s]
    by (auto simp: BlogPost_def split: option.splits)
  have "length (relatedPosts collection recordA) \<le> 3"
    by (simp add: relatedPosts_def)
  moreover have "recordA \<notin> set (relatedPosts collection recordA)"
    using members by blast
  moreover have "find_post collection s = None \<longrightarrow> BlogPost collection s = Inl NotFound"
    by (simp add: BlogPost_def)
  ultimately show ?thesis
    using order members page by blast
qed

theorem relatedPosts_properties_witness:
  "BlogPost [ui_ux_post, seo_post, design_tokens_post, launch_post, typography_post, colour_post]
     ''ui-ux-design-principles'' =
     Inr (ui_ux_post, [design_tokens_post, launch_post, typography_post]) \<and>
   relatedPosts [ui_ux_post, seo_post, design_tokens_post, launch_post, typography_post, colour_post]
     ui_ux_post = [design_tokens_post, launch_post, typography_post] \<and>
   find_post [ui_ux_post, seo_post] ''no-such-post'' = None \<and>
   BlogPost [ui_ux_post, seo_post] ''no-such-post'' = Inl NotFound"
proof -
  let ?c = "[ui_ux_post, seo_post, design_tokens_post, launch_post, typography_post, colour_post]"
  have r: "relatedPosts ?c ui_ux_post = [design_tokens_post, launch_post, typography_post]"
    by (simp add: relatedPosts_def ui_ux_post_def seo_post_def design_tokens_post_def
        launch_post_def typography_post_def colour_post_def example_post_def)
  have f: "find_post ?c ''ui-ux-design-principles'' = Some ui_ux_post"
    by (simp add: find_post_def ui_ux_post_def example_post_def)
  have b: "BlogPost ?c ''ui-ux-design-principles'' =
      Inr (ui_ux_post, [design_tokens_post, launch_post, typography_post])"
    by (simp add: BlogPost_def f r)
  have n: "find_post [ui_ux_post, seo_post] ''no-such-post'' = None"
    by (simp add: find_post_def ui_ux_post_def seo_post_def example_post_def)
  from relatedPosts_properties [of ui_ux_post ?c "''ui-ux-design-principles''"]
    relatedPosts_properties [of ui_ux_post "[ui_ux_post, seo_post]" "''no-such-post''"]
    r b n
  show ?thesis by simp
qed

text \<open>
  C7, as the specification words it, bounds the result by a limit that the caller
  gives. The page has no such parameter: with four other posts of the category the
  result has three entries, more than a limit of 1 allows.
\<close>

theorem relatedPosts_limit_counterexample:
  "length (relatedPosts
      [ui_ux_post, seo_post, design_tokens_post, launch_post, typography_post, colour_post]
      ui_ux_post) = 3 \<and>
   \<not> length (relatedPosts
      [ui_ux_post, seo_post, design_tokens_post, launch_post, typography_post, colour_post]
      ui_ux_post) \<le> 1"
  by (simp add: relatedPosts_def ui_ux_post_def seo_post_def design_tokens_post_def
      launch_post_def typography_post_def colour_post_def example_post_def)

end
